theory Spec2Isabelle
  imports Main
begin

section \<open>Decoded JSON values and Go type assertions\<close>

text \<open>
  The scanner report keeps several fields as Go \<^verbatim>\<open>interface{}\<close>. After
  \<^verbatim>\<open>json.Unmarshal\<close> such a field holds \<^verbatim>\<open>nil\<close>, a \<^verbatim>\<open>bool\<close>, a
  \<^verbatim>\<open>float64\<close>, a \<^verbatim>\<open>string\<close>, a \<^verbatim>\<open>[]interface{}\<close> or a
  \<^verbatim>\<open>map[string]interface{}\<close>. The code never inspects a number, so its payload is an
  integer here. A map is an association list read with \<open>map_of\<close>.
\<close>

datatype json =
    JNull
  | JBool bool
  | JNumber int
  | JString string
  | JArray "json list"
  | JObject "(string \<times> json) list"

text \<open>
  A type assertion \<^verbatim>\<open>x.(T)\<close> without the comma-ok form panics when \<open>x\<close> is nil or
  holds another type; dereferencing a nil pointer panics as well. A panic is not an
  \<^verbatim>\<open>error\<close> value: it unwinds the goroutine.
\<close>

datatype panic = InterfaceConversion | NilDereference

definition assert_map :: "json \<Rightarrow> panic + (string \<times> json) list" where
  "assert_map v = (case v of JObject m \<Rightarrow> Inr m | _ \<Rightarrow> Inl InterfaceConversion)"

definition assert_list :: "json \<Rightarrow> panic + json list" where
  "assert_list v = (case v of JArray xs \<Rightarrow> Inr xs | _ \<Rightarrow> Inl InterfaceConversion)"

definition assert_string :: "json \<Rightarrow> panic + string" where
  "assert_string v = (case v of JString s \<Rightarrow> Inr s | _ \<Rightarrow> Inl InterfaceConversion)"

text \<open>Indexing a Go map with a missing key yields the zero value, here nil.\<close>

definition index_map :: "(string \<times> json) list \<Rightarrow> string \<Rightarrow> json" where
  "index_map m k = (case map_of m k of None \<Rightarrow> JNull | Some v \<Rightarrow> v)"

section \<open>The report model\<close>

text \<open>
  The structs of \<^verbatim>\<open>anchore_scan.go\<close>, lines 97 to 262. \<^verbatim>\<open>Vulnerability\<close> embeds
  \<^verbatim>\<open>VulnerabilityMetadata\<close>, so it is a record extension and the promoted fields
  (\<open>ID\<close>, \<open>DataSource\<close>, \<open>Severity\<close>) are read from it directly. The \<^verbatim>\<open>Cvss\<close> scores
  and the unexported \<^verbatim>\<open>ref\<close> of a location are never read and are left out.
\<close>

record VulnerabilityMetadata =
  ID :: string
  DataSource :: string
  Namespace :: string
  Severity :: string
  URLs :: "string list"
  Description :: string

record Fix =
  Versions :: "string list"
  State :: string

record Advisory =
  AdvisoryID :: string
  Link :: string

record Vulnerability = VulnerabilityMetadata +
  Fix :: Fix
  Advisories :: "Advisory list"

record MatchDetails =
  Matcher :: string
  SearchedBy :: json
  Found :: json

record Location =
  RealPath :: string
  VirtualPath :: string
  FileSystemID :: string

record Package =
  Name :: string
  Version :: string
  Type :: string
  Locations :: "Location list"
  Language :: string
  Licenses :: "string list"
  CPEs :: "string list"
  PURL :: string
  Metadata :: json

record Match =
  Vulnerability :: Vulnerability
  RelatedVulnerabilities :: "VulnerabilityMetadata list"
  MatchDetails :: "MatchDetails list"
  Artifact :: Package

record source =
  SourceType :: string
  Target :: json

record distribution =
  DistroName :: string
  DistroVersion :: string
  IDLike :: string

record descriptor =
  DescriptorName :: string
  DescriptorVersion :: string
  Configuration :: json
  VulnerabilityDbStatus :: json

text \<open>\<^verbatim>\<open>Source\<close> is a pointer: \<open>None\<close> is nil.\<close>

record JSONReport =
  Matches :: "Match list"
  Source :: "source option"
  Distro :: distribution
  Descriptor :: descriptor

section \<open>The output model\<close>

text \<open>
  The result types come from the package \<^verbatim>\<open>containerscan\<close> (imported as \<^verbatim>\<open>cs\<close>),
  whose declarations are not among the sources. Each record has the fields the code
  assigns; every other field of the Go struct keeps its zero value. Isabelle keeps one
  name space for the fields of all records, so a field name that repeats across structs
  carries a prefix (\<open>VulnName\<close> is \<^verbatim>\<open>cs.Vulnerability.Name\<close>, \<open>FixName\<close> is
  \<^verbatim>\<open>cs.FixedIn.Name\<close>).
\<close>

record FixedIn =
  FixName :: string
  FixImgTag :: string
  FixVersion :: string

record cs_Vulnerability =
  VulnName :: string
  ImgHash :: string
  ImgTag :: string
  RelatedPackageName :: string
  PackageVersion :: string
  VulnLink :: string
  VulnDescription :: string
  VulnSeverity :: string
  Fixes :: "FixedIn list"

record ScanResultLayer =
  LayerHash :: string
  ParentLayerHash :: string
  Vulnerabilities :: "cs_Vulnerability list"

type_synonym LayersList = "ScanResultLayer list"

section \<open>AnchoreStructConversion\<close>

text \<open>
  Lines 513 to 541: the record built for a match found in a layer. \<open>fix_version\<close>
  and \<open>related_description\<close> are the two \<^verbatim>\<open>if\<close> statements of lines 515 to 524,
  \<open>vuln_record\<close> is the struct literal once its two assertions have succeeded. The literal
  evaluates \<^verbatim>\<open>map_target["manifestDigest"].(string)\<close> first and
  \<^verbatim>\<open>map_target["userInput"].(string)\<close> after it; either assertion may panic.
\<close>

definition fix_version :: "Match \<Rightarrow> string" where
  "fix_version m =
     (if length (Versions (Fix (Vulnerability m))) \<noteq> 0
      then hd (Versions (Fix (Vulnerability m))) else '''')"

definition related_description :: "Match \<Rightarrow> string" where
  "related_description m =
     (if length (RelatedVulnerabilities m) \<noteq> 0
      then Description (hd (RelatedVulnerabilities m)) else '''')"

definition vuln_record :: "string \<Rightarrow> string \<Rightarrow> Match \<Rightarrow> cs_Vulnerability" where
  "vuln_record imgHash imgTag m =
     \<lparr> VulnName = ID (Vulnerability m),
       ImgHash = imgHash,
       ImgTag = imgTag,
       RelatedPackageName = Name (Artifact m),
       PackageVersion = Version (Artifact m),
       VulnLink = DataSource (Vulnerability m),
       VulnDescription = related_description m,
       VulnSeverity = Severity (Vulnerability m),
       Fixes = [\<lparr> FixName = State (Fix (Vulnerability m)),
                   FixImgTag = imgTag,
                   FixVersion = fix_version m \<rparr>] \<rparr>"

definition build_vuln :: "(string \<times> json) list \<Rightarrow> Match \<Rightarrow> panic + cs_Vulnerability" where
  "build_vuln map_target m =
     (case assert_string (index_map map_target ''manifestDigest'') of
        Inl p \<Rightarrow> Inl p
      | Inr imgHash \<Rightarrow>
          (case assert_string (index_map map_target ''userInput'') of
             Inl p \<Rightarrow> Inl p
           | Inr imgTag \<Rightarrow> Inr (vuln_record imgHash imgTag m)))"

text \<open>
  Lines 511 to 545: the loop over the locations of one match. It stops at the first
  location of the layer (the \<^verbatim>\<open>break\<close>), so it yields at most one record.
\<close>

fun scan_locations ::
  "(string \<times> json) list \<Rightarrow> (string \<times> json) list \<Rightarrow> Match \<Rightarrow> Location list
     \<Rightarrow> panic + cs_Vulnerability option" where
  "scan_locations map_target layer m [] = Inr None"
| "scan_locations map_target layer m (location # rest) =
     (case assert_string (index_map layer ''digest'') of
        Inl p \<Rightarrow> Inl p
      | Inr digest \<Rightarrow>
          if FileSystemID location = digest
          then (case build_vuln map_target m of Inl p \<Rightarrow> Inl p | Inr vuln \<Rightarrow> Inr (Some vuln))
          else scan_locations map_target layer m rest)"

text \<open>Lines 510 to 546: the loop over the matches, appending to the layer's list.\<close>

fun scan_matches ::
  "(string \<times> json) list \<Rightarrow> (string \<times> json) list \<Rightarrow> Match list \<Rightarrow> cs_Vulnerability list
     \<Rightarrow> panic + cs_Vulnerability list" where
  "scan_matches map_target layer [] vulns = Inr vulns"
| "scan_matches map_target layer (m # ms) vulns =
     (case scan_locations map_target layer m (Locations (Artifact m)) of
        Inl p \<Rightarrow> Inl p
      | Inr None \<Rightarrow> scan_matches map_target layer ms vulns
      | Inr (Some vuln) \<Rightarrow> scan_matches map_target layer ms (vulns @ [vuln]))"

text \<open>
  Lines 502 to 549: the loop over the layers. \<open>parentLayerHash\<close> is the variable
  carried from one iteration to the next and \<open>layersList\<close> the slice appended to.
  Line 509 asserts the digest a second time, on the same value and with the same
  outcome as line 505.
\<close>

fun scan_layers ::
  "(string \<times> json) list \<Rightarrow> Match list \<Rightarrow> json list \<Rightarrow> string \<Rightarrow> LayersList
     \<Rightarrow> panic + LayersList" where
  "scan_layers map_target ms [] parentLayerHash layersList = Inr layersList"
| "scan_layers map_target ms (l # ls) parentLayerHash layersList =
     (case assert_map l of
        Inl p \<Rightarrow> Inl p
      | Inr layer \<Rightarrow>
          (case assert_string (index_map layer ''digest'') of
             Inl p \<Rightarrow> Inl p
           | Inr digest \<Rightarrow>
               (case scan_matches map_target layer ms [] of
                  Inl p \<Rightarrow> Inl p
                | Inr vulns \<Rightarrow>
                    scan_layers map_target ms ls digest
                      (layersList @
                         [\<lparr> LayerHash = digest,
                             ParentLayerHash = parentLayerHash,
                             Vulnerabilities = vulns \<rparr>]))))"

text \<open>
  Go errors are opaque values; the model keeps the message. The function returns the
  pair \<^verbatim>\<open>(*cs.LayersList, error)\<close>, and its only \<^verbatim>\<open>return\<close> gives a nil error.
\<close>

datatype error = Error string

definition AnchoreStructConversion :: "JSONReport \<Rightarrow> panic + (LayersList \<times> error option)" where
  "AnchoreStructConversion anchore_vuln_struct =
     (case Source anchore_vuln_struct of
        None \<Rightarrow> Inr ([], None)
      | Some src \<Rightarrow>
          (case assert_map (Target src) of
             Inl p \<Rightarrow> Inl p
           | Inr map_target \<Rightarrow>
               (case assert_list (index_map map_target ''layers'') of
                  Inl p \<Rightarrow> Inl p
                | Inr layers \<Rightarrow>
                    (case scan_layers map_target (Matches anchore_vuln_struct) layers '''' [] of
                       Inl p \<Rightarrow> Inl p
                     | Inr layersList \<Rightarrow> Inr (layersList, None)))))"

section \<open>GetPackagesInLayer\<close>

text \<open>
  \<^verbatim>\<open>PackageHandler\<close> is an interface declared outside the sources; the code calls
  its methods \<^verbatim>\<open>readFileListForPackage\<close>, which returns \<^verbatim>\<open>(*[]string, error)\<close>, and
  \<^verbatim>\<open>GetType\<close>. The model takes a handler whose answers depend on the package name only.
  The result types \<^verbatim>\<open>cs.PackageFile\<close> and \<^verbatim>\<open>cs.LinuxPackage\<close> have the fields the
  code assigns.
\<close>

record PackageHandler =
  readFileListForPackage :: "string \<Rightarrow> string list option \<times> error option"
  GetType :: string

record PackageFile =
  Filename :: string

type_synonym PkgFiles = "PackageFile list"

record LinuxPackage =
  PackageName :: string
  Files :: PkgFiles

type_synonym LinuxPkgs = "LinuxPackage list"

text \<open>Lines 419 to 428.\<close>

definition convertToPkgFiles :: "string list \<Rightarrow> PkgFiles" where
  "convertToPkgFiles fileList = map (\<lambda>file. \<lparr> Filename = file \<rparr>) fileList"

text \<open>
  Lines 459 to 464: the retries over the real package names. A sub-query that fails is
  skipped; one that succeeds has its list appended. \<^verbatim>\<open>*tmpfileList\<close> dereferences
  the returned pointer.
\<close>

fun remap_retries :: "PackageHandler \<Rightarrow> string list \<Rightarrow> string list \<Rightarrow> panic + string list" where
  "remap_retries packageManager [] fileList = Inr fileList"
| "remap_retries packageManager (pkgname # rest) fileList =
     (case readFileListForPackage packageManager pkgname of
        (tmpfileList, None) \<Rightarrow>
          (case tmpfileList of
             None \<Rightarrow> Inl NilDereference
           | Some tmp \<Rightarrow> remap_retries packageManager rest (fileList @ tmp))
      | (tmpfileList, Some err) \<Rightarrow> remap_retries packageManager rest fileList)"

text \<open>
  Lines 450 to 469: the query for a name that is not cached. The result is the list
  \<^verbatim>\<open>*fileList\<close> as line 471 finds it, with the real names that were retried. The remap
  table \<open>pkgResolved\<close> is consulted only under \<^verbatim>\<open>err != nil\<close>. When the query
  returns a nil list and a nil error, line 471 dereferences nil.
\<close>

definition read_with_remap ::
  "(string \<rightharpoonup> string list) \<Rightarrow> PackageHandler \<Rightarrow> string \<Rightarrow> panic + (string list \<times> string list)" where
  "read_with_remap pkgResolved packageManager package_name =
     (case readFileListForPackage packageManager package_name of
        (fileList, Some err) \<Rightarrow>
          (let fileList' = (case fileList of None \<Rightarrow> [] | Some fl \<Rightarrow> fl) in
           case pkgResolved package_name of
             None \<Rightarrow> Inr (fileList', [])
           | Some realPkgNames \<Rightarrow>
               if GetType packageManager = ''dpkg''
               then (case remap_retries packageManager realPkgNames fileList' of
                       Inl p \<Rightarrow> Inl p
                     | Inr fl \<Rightarrow> Inr (fl, realPkgNames))
               else Inr (fileList', []))
      | (fileList, None) \<Rightarrow>
          (case fileList of
             None \<Rightarrow> Inl NilDereference
           | Some fl \<Rightarrow> Inr (fl, [])))"

text \<open>
  The variables of the pass: the cache \<open>featureToFileList\<close> and the one record
  \<open>linuxPackage\<close>, both declared before the loops. \<open>queries\<close> and \<open>retries\<close> are not
  variables of the code: they record the names passed to \<^verbatim>\<open>readFileListForPackage\<close> at
  line 450 and at line 460, in call order.
\<close>

record resolver_state =
  featureToFileList :: "string \<rightharpoonup> PkgFiles"
  linuxPackage :: LinuxPackage
  queries :: "string list"
  retries :: "string list"

definition initial_state :: resolver_state where
  "initial_state =
     \<lparr> featureToFileList = Map.empty,
       linuxPackage = \<lparr> PackageName = '''', Files = [] \<rparr>,
       queries = [],
       retries = [] \<rparr>"

text \<open>Lines 449 to 482, for a package name already extracted.\<close>

definition resolve_name ::
  "(string \<rightharpoonup> string list) \<Rightarrow> PackageHandler \<Rightarrow> resolver_state \<Rightarrow> string \<Rightarrow> panic + resolver_state" where
  "resolve_name pkgResolved packageManager st package_name =
     (case featureToFileList st package_name of
        None \<Rightarrow>
          (case read_with_remap pkgResolved packageManager package_name of
             Inl p \<Rightarrow> Inl p
           | Inr (fileList, retried) \<Rightarrow>
               (let st' = st \<lparr> queries := queries st @ [package_name],
                               retries := retries st @ retried \<rparr> in
                if length fileList > 0
                then Inr (st' \<lparr> linuxPackage :=
                                  \<lparr> PackageName = package_name,
                                    Files = convertToPkgFiles fileList \<rparr>,
                                featureToFileList :=
                                  (featureToFileList st')(package_name \<mapsto> convertToPkgFiles fileList) \<rparr>)
                else Inr (st' \<lparr> linuxPackage :=
                                  (linuxPackage st') \<lparr> PackageName := package_name \<rparr> \<rparr>)))
      | Some files \<Rightarrow>
          Inr (st \<lparr> linuxPackage := \<lparr> PackageName = package_name, Files = files \<rparr> \<rparr>))"

text \<open>Lines 442 to 485: one match detail, with the three unchecked assertions.\<close>

definition resolve_detail ::
  "(string \<rightharpoonup> string list) \<Rightarrow> PackageHandler \<Rightarrow> resolver_state \<Rightarrow> MatchDetails \<Rightarrow> panic + resolver_state" where
  "resolve_detail pkgResolved packageManager st match_detailes_data =
     (if SearchedBy match_detailes_data \<noteq> JNull
      then (case assert_map (SearchedBy match_detailes_data) of
              Inl p \<Rightarrow> Inl p
            | Inr map_search_by_data \<Rightarrow>
                if index_map map_search_by_data ''package'' \<noteq> JNull
                then (case assert_map (index_map map_search_by_data ''package'') of
                        Inl p \<Rightarrow> Inl p
                      | Inr package_data \<Rightarrow>
                          if index_map package_data ''name'' \<noteq> JNull
                          then (case assert_string (index_map package_data ''name'') of
                                  Inl p \<Rightarrow> Inl p
                                | Inr package_name \<Rightarrow>
                                    resolve_name pkgResolved packageManager st package_name)
                          else Inr st)
                else Inr st)
      else Inr st)"

fun resolve_details ::
  "(string \<rightharpoonup> string list) \<Rightarrow> PackageHandler \<Rightarrow> resolver_state \<Rightarrow> MatchDetails list \<Rightarrow> panic + resolver_state" where
  "resolve_details pkgResolved packageManager st [] = Inr st"
| "resolve_details pkgResolved packageManager st (d # ds) =
     (case resolve_detail pkgResolved packageManager st d of
        Inl p \<Rightarrow> Inl p
      | Inr st' \<Rightarrow> resolve_details pkgResolved packageManager st' ds)"

fun resolve_matches ::
  "(string \<rightharpoonup> string list) \<Rightarrow> PackageHandler \<Rightarrow> resolver_state \<Rightarrow> Match list \<Rightarrow> panic + resolver_state" where
  "resolve_matches pkgResolved packageManager st [] = Inr st"
| "resolve_matches pkgResolved packageManager st (match_data # ms) =
     (case resolve_details pkgResolved packageManager st (MatchDetails match_data) of
        Inl p \<Rightarrow> Inl p
      | Inr st' \<Rightarrow> resolve_matches pkgResolved packageManager st' ms)"

text \<open>
  Lines 430 to 492. \<open>pkgResolved\<close> is declared at line 434 and never assigned, so the
  pass runs with the nil map, where every lookup misses. \<open>packageManager\<close> is an
  interface value, \<open>None\<close> when nil. The single \<^verbatim>\<open>append\<close> of line 488 follows both
  loops. The parameter \<open>layer\<close> is not used by the code.
\<close>

definition resolution_pass :: "JSONReport \<Rightarrow> PackageHandler \<Rightarrow> panic + resolver_state" where
  "resolution_pass anchore_vuln_struct packageManager =
     resolve_matches Map.empty packageManager initial_state (Matches anchore_vuln_struct)"

definition GetPackagesInLayer ::
  "string \<Rightarrow> JSONReport \<Rightarrow> PackageHandler option \<Rightarrow> panic + LinuxPkgs" where
  "GetPackagesInLayer layer anchore_vuln_struct packageManager =
     (case packageManager of
        None \<Rightarrow> Inr []
      | Some pm \<Rightarrow>
          (case resolution_pass anchore_vuln_struct pm of
             Inl p \<Rightarrow> Inl p
           | Inr st \<Rightarrow> Inr [linuxPackage st]))"

section \<open>The scanner configuration and the credential routines\<close>

text \<open>
  The configuration structs of lines 25 to 95. The fields that only carry scanner
  options (\<^verbatim>\<open>ScopeOpt\<close>, \<^verbatim>\<open>Log\<close>, \<^verbatim>\<open>CliOptions\<close>, \<^verbatim>\<open>Dev\<close>,
  \<^verbatim>\<open>FailOnSeverity\<close>) are never touched by the routines and are left out.
\<close>

record RegistryCredentials =
  Authority :: string
  Username :: string
  Password :: string
  Token :: string

record registry =
  InsecureSkipTLSVerify :: bool
  InsecureUseHTTP :: bool
  Auth :: "RegistryCredentials list"

record Database =
  Dir :: string
  UpdateURL :: string
  AutoUpdate :: bool
  ValidateByHashOnStart :: bool

record Application =
  ConfigPath :: string
  Output :: string
  OutputTemplateFile :: string
  Scope :: string
  Quiet :: bool
  Db :: Database
  CheckForAppUpdate :: bool
  FailOn :: string
  Registry :: registry

text \<open>
  The file system holds the contents of each file by path. \<^verbatim>\<open>ioutil.WriteFile\<close>
  either replaces the contents or fails; a failed write leaves the file as it was, and
  \<open>unwritable\<close> says for which paths it fails.
\<close>

record filesystem =
  files :: "string \<rightharpoonup> string"
  unwritable :: "string \<Rightarrow> bool"

definition WriteFile :: "filesystem \<Rightarrow> string \<Rightarrow> string \<Rightarrow> error option \<times> filesystem" where
  "WriteFile fs filename data =
     (if unwritable fs filename
      then (Some (Error ''open: permission denied''), fs)
      else (None, fs \<lparr> files := (files fs)(filename \<mapsto> data) \<rparr>))"

text \<open>
  The collaborators the code calls and the sources do not contain: the YAML codec
  (\<^verbatim>\<open>yaml.Unmarshal\<close> into a zero \<^verbatim>\<open>Application\<close>, \<^verbatim>\<open>yaml.Marshal\<close>), the scanner
  process (\<^verbatim>\<open>cmd.Run\<close> with its captured standard output; it reads the file system and
  is taken not to write the configuration) and \<^verbatim>\<open>json.Unmarshal\<close> into a zero
  \<^verbatim>\<open>JSONReport\<close>, which returns what it decoded and an error.
\<close>

record environment =
  yaml_Unmarshal :: "string \<Rightarrow> error + Application"
  yaml_Marshal :: "Application \<Rightarrow> string \<times> error option"
  cmd_Run :: "string list \<Rightarrow> filesystem \<Rightarrow> string \<times> error option"
  json_Unmarshal :: "string \<Rightarrow> JSONReport \<times> error option"

text \<open>
  Lines 336 to 361. Line 341 is \<^verbatim>\<open>ioutil.ReadAll(strings.NewReader(path))\<close>: the reader
  is over the text of the path, so \<open>bytes\<close> is that text and the read cannot fail. The
  text is \<^verbatim>\<open>anchoreDirectoryPath + "/config.yaml"\<close>, while line 353 writes to
  \<^verbatim>\<open>anchoreDirectoryPath + "/.grype" + "/config.yaml"\<close>. The error of \<^verbatim>\<open>yaml.Marshal\<close> is
  overwritten by line 353. The mutex, set up by
  \<^verbatim>\<open>CreateAnchoreResourcesDirectoryAndFiles\<close>, is taken and released within the routine
  and has no effect on a single call chain.
\<close>

definition AddCredentialsToAnchoreConfiguratioFile ::
  "environment \<Rightarrow> string \<Rightarrow> filesystem \<Rightarrow> string \<Rightarrow> string \<Rightarrow> error option \<times> filesystem" where
  "AddCredentialsToAnchoreConfiguratioFile env anchoreDirectoryPath fs username password =
     (let bytes = anchoreDirectoryPath @ ''/config.yaml'' in
      case yaml_Unmarshal env bytes of
        Inl err \<Rightarrow> (Some err, fs)
      | Inr App \<Rightarrow>
          (let App' = App \<lparr> Registry := (Registry App)
                       \<lparr> Auth := Auth (Registry App) @
                            [\<lparr> Authority = '''', Username = username,
                                Password = password, Token = '''' \<rparr>] \<rparr> \<rparr>;
               config_yaml_data = fst (yaml_Marshal env App')
           in WriteFile fs (anchoreDirectoryPath @ ''/.grype'' @ ''/config.yaml'') config_yaml_data))"

text \<open>
  Lines 378 to 385: the loop that takes out the first entry with this username and
  password and stops.
\<close>

function remove_loop :: "nat \<Rightarrow> string \<Rightarrow> string \<Rightarrow> RegistryCredentials list \<Rightarrow> RegistryCredentials list" where
  "remove_loop i username password auth =
     (if i < length auth
      then (if username = Username (auth ! i) \<and> password = Password (auth ! i)
            then take i auth @ drop (i + 1) auth
            else remove_loop (i + 1) username password auth)
      else auth)"
  by pat_completeness auto
termination
  by (relation "measure (\<lambda>(i, username, password, auth). length auth - i)") auto

text \<open>
  Lines 363 to 395. Line 368 reads the text of the path as well, here
  \<^verbatim>\<open>anchoreDirectoryPath + "/.grype" + "/config.yaml"\<close>.
\<close>

definition RemoveCredentialsFromAnchoreConfiguratioFile ::
  "environment \<Rightarrow> string \<Rightarrow> filesystem \<Rightarrow> string \<Rightarrow> string \<Rightarrow> error option \<times> filesystem" where
  "RemoveCredentialsFromAnchoreConfiguratioFile env anchoreDirectoryPath fs username password =
     (let bytes = anchoreDirectoryPath @ ''/.grype'' @ ''/config.yaml'' in
      case yaml_Unmarshal env bytes of
        Inl err \<Rightarrow> (Some err, fs)
      | Inr App \<Rightarrow>
          (let App' = App \<lparr> Registry := (Registry App)
                       \<lparr> Auth := remove_loop 0 username password (Auth (Registry App)) \<rparr> \<rparr>;
               config_yaml_data = fst (yaml_Marshal env App')
           in WriteFile fs (anchoreDirectoryPath @ ''/.grype'' @ ''/config.yaml'') config_yaml_data))"

text \<open>
  \<^verbatim>\<open>wssc.WebsocketScanCommand\<close> is declared outside the sources; the code reads its
  \<^verbatim>\<open>ImageTag\<close> and its \<^verbatim>\<open>Credentials\<close> pointer.
\<close>

record Credentials =
  CredUsername :: string
  CredPassword :: string

record WebsocketScanCommand =
  ImageTag :: string
  Credentials :: "Credentials option"

text \<open>The condition of lines 403 and 407.\<close>

definition has_credentials :: "WebsocketScanCommand \<Rightarrow> bool" where
  "has_credentials scanCmd =
     (case Credentials scanCmd of
        None \<Rightarrow> False
      | Some c \<Rightarrow> CredUsername c \<noteq> '''' \<and> CredPassword c \<noteq> '''')"

definition anchoreBinaryName :: string where
  "anchoreBinaryName = ''/grype-cmd''"

text \<open>
  Lines 397 to 417. The results of both credential routines are dropped, and so is the
  error of \<^verbatim>\<open>json.Unmarshal\<close>. The result is the returned pair and the file system the
  call leaves.
\<close>

definition GetAnchoreScanRes ::
  "environment \<Rightarrow> string \<Rightarrow> filesystem \<Rightarrow> WebsocketScanCommand
     \<Rightarrow> (JSONReport option \<times> error option) \<times> filesystem" where
  "GetAnchoreScanRes env anchoreDirectoryPath fs scanCmd =
     (let username = (case Credentials scanCmd of None \<Rightarrow> '''' | Some c \<Rightarrow> CredUsername c);
          password = (case Credentials scanCmd of None \<Rightarrow> '''' | Some c \<Rightarrow> CredPassword c);
          fs1 = (if has_credentials scanCmd
                 then snd (AddCredentialsToAnchoreConfiguratioFile env anchoreDirectoryPath fs username password)
                 else fs);
          (out, err) = cmd_Run env [anchoreDirectoryPath @ anchoreBinaryName, ImageTag scanCmd, ''-o'', ''json''] fs1;
          fs2 = (if has_credentials scanCmd
                 then snd (RemoveCredentialsFromAnchoreConfiguratioFile env anchoreDirectoryPath fs1 username password)
                 else fs1)
      in case err of
           Some e \<Rightarrow> ((None, Some e), fs2)
         | None \<Rightarrow> ((Some (fst (json_Unmarshal env out)), None), fs2))"

text \<open>Lines 555 to 571.\<close>

definition GetAnchoreScanResults ::
  "environment \<Rightarrow> string \<Rightarrow> filesystem \<Rightarrow> WebsocketScanCommand
     \<Rightarrow> panic + ((LayersList option \<times> error option) \<times> filesystem)" where
  "GetAnchoreScanResults env anchoreDirectoryPath fs scanCmd =
     (case GetAnchoreScanRes env anchoreDirectoryPath fs scanCmd of
        ((_, Some err), fs') \<Rightarrow> Inr ((None, Some err), fs')
      | ((None, None), fs') \<Rightarrow> Inl NilDereference
      | ((Some anchore_vuln_struct, None), fs') \<Rightarrow>
          (case AnchoreStructConversion anchore_vuln_struct of
             Inl p \<Rightarrow> Inl p
           | Inr (LayersVulnsList, Some err) \<Rightarrow> Inr ((None, Some err), fs')
           | Inr (LayersVulnsList, None) \<Rightarrow> Inr ((Some LayersVulnsList, None), fs')))"

section \<open>Notions used to state the properties\<close>

text \<open>
  The digest of a layer entry, when the entry is an object whose \<open>digest\<close> is a
  string; \<open>in_layer\<close> says that a match has a location in the layer with this digest.
\<close>

definition layer_digest :: "json \<Rightarrow> string option" where
  "layer_digest l =
     (case l of
        JObject layer \<Rightarrow> (case index_map layer ''digest'' of JString d \<Rightarrow> Some d | _ \<Rightarrow> None)
      | _ \<Rightarrow> None)"

definition in_layer :: "string \<Rightarrow> Match \<Rightarrow> bool" where
  "in_layer digest m = (digest \<in> set (map FileSystemID (Locations (Artifact m))))"

text \<open>
  The layer chain as the specification describes it: one entry per digest, each with the
  digest before it as parent, holding one record per match of the layer. It is compared
  with what \<open>scan_layers\<close> computes.
\<close>

fun layer_chain :: "(Match \<Rightarrow> cs_Vulnerability) \<Rightarrow> Match list \<Rightarrow> string \<Rightarrow> string list \<Rightarrow> LayersList" where
  "layer_chain f ms parent [] = []"
| "layer_chain f ms parent (d # ds) =
     \<lparr> LayerHash = d, ParentLayerHash = parent,
       Vulnerabilities = map f (filter (in_layer d) ms) \<rparr> # layer_chain f ms d ds"

text \<open>A report whose matches carry other top-level descriptions, and nothing else changed.\<close>

definition with_own_descriptions :: "(Match \<Rightarrow> string) \<Rightarrow> JSONReport \<Rightarrow> JSONReport" where
  "with_own_descriptions g r =
     r \<lparr> Matches := map (\<lambda>m. m \<lparr> Vulnerability := (Vulnerability m) \<lparr> Description := g m \<rparr> \<rparr>)
                       (Matches r) \<rparr>"

text \<open>
  The package name a match detail asks to resolve, when its \<open>searchedBy\<close> is an object
  whose \<open>package\<close> is an object with a string \<open>name\<close>; \<open>package_names\<close> lists the
  occurrences of names in a report, in the order of the two loops.
\<close>

definition detail_name :: "MatchDetails \<Rightarrow> string option" where
  "detail_name d =
     (case SearchedBy d of
        JObject map_search_by_data \<Rightarrow>
          (case index_map map_search_by_data ''package'' of
             JObject package_data \<Rightarrow>
               (case index_map package_data ''name'' of JString name \<Rightarrow> Some name | _ \<Rightarrow> None)
           | _ \<Rightarrow> None)
      | _ \<Rightarrow> None)"

definition package_names :: "JSONReport \<Rightarrow> string list" where
  "package_names r = concat (map (\<lambda>m. List.map_filter detail_name (MatchDetails m)) (Matches r))"

text \<open>
  The invariant of the pass after the occurrences \<open>seen\<close>: a name that resolves to no
  file has been queried once per occurrence and is not cached; a name that resolves to
  a non-empty list has either not occurred, and is neither queried nor cached, or has
  occurred, and has been queried once and is cached with that list.
\<close>

definition pass_inv ::
  "(string \<rightharpoonup> string list) \<Rightarrow> PackageHandler \<Rightarrow> resolver_state \<Rightarrow> string list \<Rightarrow> bool" where
  "pass_inv T pm st seen =
     (\<forall>n fl rs. read_with_remap T pm n = Inr (fl, rs) \<longrightarrow>
        (if fl = []
         then count_list (queries st) n = count_list seen n \<and> featureToFileList st n = None
         else (n \<notin> set seen \<and> count_list (queries st) n = 0 \<and> featureToFileList st n = None)
            \<or> (n \<in> set seen \<and> count_list (queries st) n = 1
                \<and> featureToFileList st n = Some (convertToPkgFiles fl))))"

text \<open>The path of the configuration artifact and the credential entries a text decodes to.\<close>

definition config_path :: "string \<Rightarrow> string" where
  "config_path anchoreDirectoryPath = anchoreDirectoryPath @ ''/.grype'' @ ''/config.yaml''"

definition artifact_credentials :: "environment \<Rightarrow> string \<Rightarrow> filesystem \<Rightarrow> RegistryCredentials list" where
  "artifact_credentials env anchoreDirectoryPath fs =
     (case files fs (config_path anchoreDirectoryPath) of
        None \<Rightarrow> []
      | Some text \<Rightarrow>
          (case yaml_Unmarshal env text of
             Inl err \<Rightarrow> []
           | Inr App \<Rightarrow> Auth (Registry App)))"

text \<open>Whether a credential entry carries this username and password (line 380).\<close>

definition is_pair :: "string \<Rightarrow> string \<Rightarrow> RegistryCredentials \<Rightarrow> bool" where
  "is_pair username password a = (username = Username a \<and> password = Password a)"

section \<open>Concrete inputs\<close>

text \<open>Reports in the shape the scanner emits for an image.\<close>

definition at_layer :: "string \<Rightarrow> Location" where
  "at_layer layerID =
     \<lparr> RealPath = ''/var/lib/dpkg/status'', VirtualPath = '''', FileSystemID = layerID \<rparr>"

definition searched_by :: "string \<Rightarrow> json" where
  "searched_by name =
     JObject [(''namespace'', JString ''debian:11''),
              (''package'', JObject [(''name'', JString name), (''version'', JString ''1.0'')])]"

definition sample_match :: "string \<Rightarrow> string \<Rightarrow> string list \<Rightarrow> string list \<Rightarrow> Match" where
  "sample_match cve name versions layerIDs =
     \<lparr> Vulnerability =
         \<lparr> ID = cve, DataSource = ''https://security-tracker.debian.org/'' @ cve,
           Namespace = ''debian:11'', Severity = ''High'', URLs = [],
           Description = ''own text of '' @ cve,
           Fix = \<lparr> Versions = versions, State = (if versions = [] then ''not-fixed'' else ''fixed'') \<rparr>,
           Advisories = [] \<rparr>,
       RelatedVulnerabilities =
         [\<lparr> ID = cve, DataSource = ''https://nvd.nist.gov/vuln/detail/'' @ cve,
             Namespace = ''nvd'', Severity = ''High'', URLs = [],
             Description = ''related text of '' @ cve \<rparr>],
       MatchDetails = [\<lparr> Matcher = ''dpkg-matcher'', SearchedBy = searched_by name, Found = JNull \<rparr>],
       Artifact =
         \<lparr> Name = name, Version = ''1.0'', Type = ''deb'', Locations = map at_layer layerIDs,
           Language = '''', Licenses = [], CPEs = [], PURL = '''', Metadata = JNull \<rparr> \<rparr>"

definition image_target :: "string list \<Rightarrow> json" where
  "image_target digests =
     JObject [(''userInput'', JString ''registry.example.com/app:1''),
              (''manifestDigest'', JString ''sha256:fff''),
              (''layers'', JArray (map (\<lambda>d. JObject [(''digest'', JString d), (''size'', JNumber 1)]) digests))]"

definition sample_report :: "string \<Rightarrow> json \<Rightarrow> Match list \<Rightarrow> JSONReport" where
  "sample_report type target ms =
     \<lparr> Matches = ms,
       Source = Some \<lparr> SourceType = type, Target = target \<rparr>,
       Distro = \<lparr> DistroName = ''debian'', DistroVersion = ''11'', IDLike = '''' \<rparr>,
       Descriptor = \<lparr> DescriptorName = ''grype'', DescriptorVersion = ''0.13.0'',
                      Configuration = JNull, VulnerabilityDbStatus = JNull \<rparr> \<rparr>"

text \<open>
  The scenario of the specification: layers \<open>sha256:aaa\<close> and \<open>sha256:bbb\<close>, one match
  on \<open>curl\<close> located in the second layer, fixed in \<open>7.68.0-1\<close>.
\<close>

definition curl_match :: Match where
  "curl_match = sample_match ''CVE-2021-22876'' ''curl'' [''7.68.0-1''] [''sha256:bbb'']"

definition curl_report :: JSONReport where
  "curl_report = sample_report ''image'' (image_target [''sha256:aaa'', ''sha256:bbb'']) [curl_match]"

text \<open>
  Three matches: one in the second layer, one with two locations in the second layer
  and one in the first, and one located in a layer the image does not have.
\<close>

definition openssl_match :: Match where
  "openssl_match =
     sample_match ''CVE-2021-3711'' ''openssl'' [] [''sha256:bbb'', ''sha256:bbb'', ''sha256:aaa'']"

definition orphan_match :: Match where
  "orphan_match = sample_match ''CVE-2020-1971'' ''libssl1.1'' [] [''sha256:zzz'']"

definition three_match_report :: JSONReport where
  "three_match_report =
     sample_report ''image'' (image_target [''sha256:aaa'', ''sha256:bbb''])
       [curl_match, openssl_match, orphan_match]"

text \<open>A report without source, and the report of a directory scan, whose target is a path.\<close>

definition sourceless_report :: JSONReport where
  "sourceless_report = (sample_report ''image'' JNull [curl_match]) \<lparr> Source := None \<rparr>"

definition directory_report :: JSONReport where
  "directory_report = sample_report ''directory'' (JString ''/rootfs'') []"

text \<open>
  A package handler over a table of file lists: a name of the table succeeds with its
  list, any other name fails with a nil list.
\<close>

definition listing_handler :: "string \<Rightarrow> (string \<times> string list) list \<Rightarrow> PackageHandler" where
  "listing_handler type db =
     \<lparr> readFileListForPackage =
         (\<lambda>name. case map_of db name of
                    Some fl \<Rightarrow> (Some fl, None)
                  | None \<Rightarrow> (None, Some (Error ''no file list''))),
       GetType = type \<rparr>"

definition libfoo_parts :: "(string \<times> string list) list" where
  "libfoo_parts =
     [(''libfoo1-bin'', [''/usr/bin/foo'']), (''libfoo1-data'', [''/usr/share/foo/data''])]"

definition libfoo_match :: Match where
  "libfoo_match = sample_match ''CVE-2022-0001'' ''libfoo1'' [] [''sha256:aaa'']"

definition bash_match :: Match where
  "bash_match = sample_match ''CVE-2019-18276'' ''bash'' [] [''sha256:aaa'']"

definition package_db :: "(string \<times> string list) list" where
  "package_db = [(''bash'', [''/bin/bash'']), (''curl'', [''/usr/bin/curl''])]"

text \<open>Reports for the package resolution, each match naming its package in \<open>searchedBy\<close>.\<close>

definition libfoo_report :: JSONReport where
  "libfoo_report = sample_report ''image'' (image_target [''sha256:aaa'']) [libfoo_match]"

definition libfoo_twice_report :: JSONReport where
  "libfoo_twice_report =
     sample_report ''image'' (image_target [''sha256:aaa'']) [libfoo_match, libfoo_match]"

definition bash_twice_report :: JSONReport where
  "bash_twice_report =
     sample_report ''image'' (image_target [''sha256:aaa'']) [bash_match, bash_match]"

definition two_package_report :: JSONReport where
  "two_package_report =
     sample_report ''image'' (image_target [''sha256:aaa'', ''sha256:bbb'']) [bash_match, curl_match]"

text \<open>What a call leaves of the pass: the queries, the retries and the record.\<close>

definition observe :: "panic + resolver_state \<Rightarrow> panic + (string list \<times> string list \<times> LinuxPackage)" where
  "observe result = map_sum id (\<lambda>st. (queries st, retries st, linuxPackage st)) result"

text \<open>
  A file system with the configuration artifact, and collaborators for it: a YAML codec
  that knows the two configuration texts below and rejects every other text, as a YAML
  decoder rejects a plain scalar for a struct; a scanner that fails; the JSON decoder is
  not reached.
\<close>

definition startup_config :: Application where
  "startup_config =
     \<lparr> ConfigPath = '''', Output = ''json'', OutputTemplateFile = '''', Scope = ''Squashed'',
       Quiet = False,
       Db = \<lparr> Dir = ''/srv/anchore-resources/Db'',
              UpdateURL = ''https://toolbox-data.anchore.io/grype/databases/listing.json'',
              AutoUpdate = True, ValidateByHashOnStart = False \<rparr>,
       CheckForAppUpdate = True, FailOn = '''',
       Registry = \<lparr> InsecureSkipTLSVerify = False, InsecureUseHTTP = False, Auth = [] \<rparr> \<rparr>"

definition alice_entry :: RegistryCredentials where
  "alice_entry = \<lparr> Authority = '''', Username = ''alice'', Password = ''s3cret'', Token = '''' \<rparr>"

definition alice_config :: Application where
  "alice_config = startup_config \<lparr> Registry := (Registry startup_config) \<lparr> Auth := [alice_entry] \<rparr> \<rparr>"

definition startup_text :: string where
  "startup_text = ''output: json; registry: {auth: []}''"

definition alice_text :: string where
  "alice_text = ''output: json; registry: {auth: [alice]}''"

definition known_documents :: "(string \<times> Application) list" where
  "known_documents =
     [(startup_text, startup_config), (alice_text, alice_config)]"

definition failing_scan_env :: environment where
  "failing_scan_env =
     \<lparr> yaml_Unmarshal =
         (\<lambda>text. case map_of known_documents text of
                    Some App \<Rightarrow> Inr App
                  | None \<Rightarrow> Inl (Error ''yaml: unmarshal errors'')),
       yaml_Marshal =
         (\<lambda>App. case map_of (map (\<lambda>(text, a). (a, text)) known_documents) App of
                   Some text \<Rightarrow> (text, None)
                 | None \<Rightarrow> ('''', Some (Error ''yaml: marshal error''))),
       cmd_Run = (\<lambda>args fs. ('''', Some (Error ''exit status 1''))),
       json_Unmarshal = (\<lambda>out. (sourceless_report, None)) \<rparr>"

definition artifact_fs :: "string \<Rightarrow> filesystem" where
  "artifact_fs text = \<lparr> files = [config_path ''/srv/anchore-resources'' \<mapsto> text], unwritable = (\<lambda>path. False) \<rparr>"

definition alice_scan :: WebsocketScanCommand where
  "alice_scan =
     \<lparr> ImageTag = ''registry.example.com/app:1'',
       Credentials = Some \<lparr> CredUsername = ''alice'', CredPassword = ''s3cret'' \<rparr> \<rparr>"

section \<open>Properties of the layer attribution\<close>

lemma layer_digest_SomeD:
  "layer_digest l = Some d \<Longrightarrow>
     \<exists>layer. assert_map l = Inr layer \<and> assert_string (index_map layer ''digest'') = Inr d"
  by (auto simp: layer_digest_def assert_map_def assert_string_def split: json.splits)

lemma scan_locations_eq:
  "assert_string (index_map layer ''digest'') = Inr d \<Longrightarrow>
   scan_locations mt layer m locs =
     (if d \<in> set (map FileSystemID locs)
      then (case build_vuln mt m of Inl p \<Rightarrow> Inl p | Inr v \<Rightarrow> Inr (Some v))
      else Inr None)"
  by (induction locs) auto

lemma scan_matches_eq:
  "assert_string (index_map layer ''digest'') = Inr d \<Longrightarrow>
   \<forall>m\<in>set ms. in_layer d m \<longrightarrow> build_vuln mt m = Inr (f m) \<Longrightarrow>
   scan_matches mt layer ms vulns = Inr (vulns @ map f (filter (in_layer d) ms))"
  by (induction ms arbitrary: vulns) (auto simp: scan_locations_eq in_layer_def)

lemma scan_layers_eq:
  "map layer_digest ls = map Some ds \<Longrightarrow>
   \<forall>d\<in>set ds. \<forall>m\<in>set ms. in_layer d m \<longrightarrow> build_vuln mt m = Inr (f m) \<Longrightarrow>
   scan_layers mt ms ls parent acc = Inr (acc @ layer_chain f ms parent ds)"
proof (induction ls arbitrary: ds parent acc)
  case Nil
  then show ?case by simp
next
  case (Cons l ls)
  then obtain d ds' where ds: "ds = d # ds'" and ld: "layer_digest l = Some d"
    and rest: "map layer_digest ls = map Some ds'"
    by (cases ds) auto
  from layer_digest_SomeD[OF ld] obtain layer where
    am: "assert_map l = Inr layer" and as: "assert_string (index_map layer ''digest'') = Inr d"
    by blast
  have sm: "scan_matches mt layer ms [] = Inr ([] @ map f (filter (in_layer d) ms))"
    by (rule scan_matches_eq[OF as]) (use Cons.prems(2) ds in auto)
  have IH: "scan_layers mt ms ls d acc' = Inr (acc' @ layer_chain f ms d ds')" for acc'
    by (rule Cons.IH[OF rest]) (use Cons.prems(2) ds in auto)
  show ?case
    by (simp add: am as sm IH ds)
qed

lemma length_layer_chain: "length (layer_chain f ms parent ds) = length ds"
  by (induction ds arbitrary: parent) auto

lemma layer_chain_nth:
  "i < length ds \<Longrightarrow>
   layer_chain f ms parent ds ! i =
     \<lparr> LayerHash = ds ! i,
       ParentLayerHash = (if i = 0 then parent else ds ! (i - 1)),
       Vulnerabilities = map f (filter (in_layer (ds ! i)) ms) \<rparr>"
proof (induction ds arbitrary: parent i)
  case Nil
  then show ?case by simp
next
  case (Cons d ds)
  show ?case
  proof (cases i)
    case 0
    then show ?thesis by simp
  next
    case (Suc j)
    with Cons.prems have "j < length ds" by simp
    from Cons.IH[OF this, of d] Suc show ?thesis
      by (cases j) auto
  qed
qed

lemma build_vuln_strings:
  "index_map mt ''manifestDigest'' = JString h \<Longrightarrow> index_map mt ''userInput'' = JString t \<Longrightarrow>
   build_vuln mt m = Inr (vuln_record h t m)"
  by (simp add: build_vuln_def assert_string_def)

lemma conversion_eq:
  assumes "Source r = Some src" "Target src = JObject mt"
    and "index_map mt ''layers'' = JArray ls"
    and "map layer_digest ls = map Some ds"
    and "(index_map mt ''manifestDigest'' = JString h \<and> index_map mt ''userInput'' = JString t)
         \<or> (\<forall>d\<in>set ds. \<forall>m\<in>set (Matches r). \<not> in_layer d m)"
  shows "AnchoreStructConversion r = Inr (layer_chain (vuln_record h t) (Matches r) '''' ds, None)"
proof -
  have "\<forall>d\<in>set ds. \<forall>m\<in>set (Matches r). in_layer d m \<longrightarrow> build_vuln mt m = Inr (vuln_record h t m)"
    using assms(5) by (auto simp: build_vuln_strings)
  from scan_layers_eq[OF assms(4) this, of "''''" "[]"]
  show ?thesis
    using assms(1-3) by (simp add: AnchoreStructConversion_def assert_map_def assert_list_def)
qed

lemma scan_matches_rel:
  "assert_string (index_map layer ''digest'') = Inr d \<Longrightarrow>
   scan_matches mt layer ms vulns = Inr out \<Longrightarrow>
   \<exists>new. out = vulns @ new
     \<and> list_all2 (\<lambda>v m. build_vuln mt m = Inr v) new (filter (in_layer d) ms)"
proof (induction ms arbitrary: vulns)
  case Nil
  then show ?case by simp
next
  case (Cons m ms)
  show ?case
  proof (cases "in_layer d m")
    case False
    with Cons.prems have "scan_matches mt layer ms vulns = Inr out"
      by (simp add: scan_locations_eq[OF Cons.prems(1)] in_layer_def)
    from Cons.IH[OF Cons.prems(1) this] False show ?thesis by simp
  next
    case True
    with Cons.prems obtain v where
      v: "build_vuln mt m = Inr v" and rest: "scan_matches mt layer ms (vulns @ [v]) = Inr out"
      by (auto simp: scan_locations_eq[OF Cons.prems(1)] in_layer_def split: sum.splits)
    from Cons.IH[OF Cons.prems(1) rest] obtain new where
      "out = (vulns @ [v]) @ new"
      "list_all2 (\<lambda>v m. build_vuln mt m = Inr v) new (filter (in_layer d) ms)"
      by blast
    with v True show ?thesis
      by (intro exI[where x = "v # new"]) simp
  qed
qed

lemma scan_layers_rel:
  "scan_layers mt ms ls parent acc = Inr out \<Longrightarrow> L \<in> set out \<Longrightarrow>
   L \<in> set acc
   \<or> list_all2 (\<lambda>v m. build_vuln mt m = Inr v) (Vulnerabilities L)
        (filter (in_layer (LayerHash L)) ms)"
proof (induction ls arbitrary: parent acc)
  case Nil
  then show ?case by simp
next
  case (Cons l ls)
  from Cons.prems(1) obtain layer d vulns where
    d: "assert_string (index_map layer ''digest'') = Inr d"
    and sm: "scan_matches mt layer ms [] = Inr vulns"
    and rest: "scan_layers mt ms ls d
                 (acc @ [\<lparr> LayerHash = d, ParentLayerHash = parent, Vulnerabilities = vulns \<rparr>]) = Inr out"
    by (auto split: sum.splits)
  from scan_matches_rel[OF d sm]
  have rel: "list_all2 (\<lambda>v m. build_vuln mt m = Inr v) vulns (filter (in_layer d) ms)"
    by simp
  from Cons.IH[OF rest Cons.prems(2)] show ?case
  proof
    assume "L \<in> set (acc @ [\<lparr> LayerHash = d, ParentLayerHash = parent, Vulnerabilities = vulns \<rparr>])"
    then show ?thesis using rel by auto
  qed simp
qed

lemma fix_version_case:
  "fix_version m = (case Versions (Fix (Vulnerability m)) of [] \<Rightarrow> '''' | x # xs \<Rightarrow> x)"
  by (simp add: fix_version_def split: list.splits)

lemma related_description_case:
  "related_description m =
     (case RelatedVulnerabilities m of [] \<Rightarrow> '''' | x # xs \<Rightarrow> Description x)"
  by (simp add: related_description_def split: list.splits)

lemma build_vuln_record_fields:
  "build_vuln mt m = Inr v \<Longrightarrow>
   VulnName v = ID (Vulnerability m)
   \<and> RelatedPackageName v = Name (Artifact m)
   \<and> PackageVersion v = Version (Artifact m)
   \<and> Fixes v = [\<lparr> FixName = State (Fix (Vulnerability m)), FixImgTag = ImgTag v,
                    FixVersion = (case Versions (Fix (Vulnerability m)) of
                                    [] \<Rightarrow> '''' | x # xs \<Rightarrow> x) \<rparr>]
   \<and> VulnDescription v = (case RelatedVulnerabilities m of
                             [] \<Rightarrow> '''' | x # xs \<Rightarrow> Description x)"
  by (auto simp: build_vuln_def vuln_record_def fix_version_case related_description_case
        split: sum.splits)

lemma build_vuln_own_description:
  "build_vuln mt (m \<lparr> Vulnerability := (Vulnerability m) \<lparr> Description := s \<rparr> \<rparr>) = build_vuln mt m"
  by (simp add: build_vuln_def vuln_record_def fix_version_def related_description_def
        cong: sum.case_cong)

lemma scan_locations_own_description:
  "scan_locations mt layer (m \<lparr> Vulnerability := (Vulnerability m) \<lparr> Description := s \<rparr> \<rparr>) locs
     = scan_locations mt layer m locs"
  by (induction locs) (auto simp: build_vuln_own_description split: sum.splits)

lemma scan_matches_own_description:
  "scan_matches mt layer
     (map (\<lambda>m. m \<lparr> Vulnerability := (Vulnerability m) \<lparr> Description := g m \<rparr> \<rparr>) ms) vulns
     = scan_matches mt layer ms vulns"
  by (induction ms arbitrary: vulns)
     (simp_all add: scan_locations_own_description cong: sum.case_cong option.case_cong)

lemma scan_layers_own_description:
  "scan_layers mt
     (map (\<lambda>m. m \<lparr> Vulnerability := (Vulnerability m) \<lparr> Description := g m \<rparr> \<rparr>) ms) ls parent acc
     = scan_layers mt ms ls parent acc"
  by (induction ls arbitrary: parent acc)
     (simp_all add: scan_matches_own_description cong: sum.case_cong)

lemma conversion_own_description:
  "AnchoreStructConversion (with_own_descriptions g r) = AnchoreStructConversion r"
  by (simp add: AnchoreStructConversion_def with_own_descriptions_def scan_layers_own_description
        cong: sum.case_cong option.case_cong)

lemmas sample_defs =
  sample_report_def image_target_def sample_match_def at_layer_def searched_by_def
  curl_match_def openssl_match_def orphan_match_def

text \<open>
  C1: for every report whose \<open>source.target.layers\<close> holds N layers, each an object
  with a string digest, the conversion returns N entries in the order of the layers;
  entry \<open>i\<close> has the digest of layer \<open>i\<close> as \<open>LayerHash\<close> and the digest of layer
  \<open>i - 1\<close> as \<open>ParentLayerHash\<close>, the empty string for the first; a layer in which no
  match is located contributes its entry with an empty list. The image digest and tag
  must be strings as soon as some match is located in some layer, since the record of
  that match reads them.
\<close>

theorem layer_entries_follow_layers:
  assumes "Source r = Some src" and "Target src = JObject map_target"
    and "index_map map_target ''layers'' = JArray layers"
    and "map layer_digest layers = map Some digests"
    and "(\<exists>h t. index_map map_target ''manifestDigest'' = JString h
               \<and> index_map map_target ''userInput'' = JString t)
         \<or> (\<forall>d\<in>set digests. \<forall>m\<in>set (Matches r). \<not> in_layer d m)"
  shows "\<exists>out. AnchoreStructConversion r = Inr (out, None)
           \<and> length out = length layers
           \<and> (\<forall>i<length layers.
                 LayerHash (out ! i) = digests ! i
               \<and> ParentLayerHash (out ! i) = (if i = 0 then '''' else digests ! (i - 1))
               \<and> ((\<forall>m\<in>set (Matches r). \<not> in_layer (digests ! i) m)
                    \<longrightarrow> Vulnerabilities (out ! i) = []))"
proof -
  from assms(5) obtain h t where
    "(index_map map_target ''manifestDigest'' = JString h
        \<and> index_map map_target ''userInput'' = JString t)
     \<or> (\<forall>d\<in>set digests. \<forall>m\<in>set (Matches r). \<not> in_layer d m)"
    by blast
  from conversion_eq[OF assms(1-4) this]
  have conv: "AnchoreStructConversion r
                = Inr (layer_chain (vuln_record h t) (Matches r) '''' digests, None)" .
  have len: "length layers = length digests"
    using assms(4) by (metis length_map)
  have "\<forall>i<length digests.
          LayerHash (layer_chain (vuln_record h t) (Matches r) '''' digests ! i) = digests ! i
        \<and> ParentLayerHash (layer_chain (vuln_record h t) (Matches r) '''' digests ! i)
            = (if i = 0 then '''' else digests ! (i - 1))
        \<and> ((\<forall>m\<in>set (Matches r). \<not> in_layer (digests ! i) m)
             \<longrightarrow> Vulnerabilities (layer_chain (vuln_record h t) (Matches r) '''' digests ! i) = [])"
    by (simp add: layer_chain_nth filter_empty_conv)
  with conv len show ?thesis
    by (simp add: length_layer_chain)
qed

theorem layer_entries_follow_layers_witness:
  "\<exists>out. AnchoreStructConversion curl_report = Inr (out, None)
     \<and> length out = 2
     \<and> LayerHash (out ! 0) = ''sha256:aaa'' \<and> ParentLayerHash (out ! 0) = ''''
     \<and> Vulnerabilities (out ! 0) = []
     \<and> LayerHash (out ! 1) = ''sha256:bbb'' \<and> ParentLayerHash (out ! 1) = ''sha256:aaa''"
proof -
  let ?layers = "map (\<lambda>d. JObject [(''digest'', JString d), (''size'', JNumber 1)])
                   [''sha256:aaa'', ''sha256:bbb'']"
  let ?mt = "[(''userInput'', JString ''registry.example.com/app:1''),
              (''manifestDigest'', JString ''sha256:fff''),
              (''layers'', JArray ?layers)]"
  have a1: "Source curl_report = Some \<lparr> SourceType = ''image'', Target = JObject ?mt \<rparr>"
    by (simp add: curl_report_def sample_defs)
  have a2: "Target \<lparr> SourceType = ''image'', Target = JObject ?mt \<rparr> = JObject ?mt"
    by simp
  have a3: "index_map ?mt ''layers'' = JArray ?layers"
    by (simp add: index_map_def)
  have a4: "map layer_digest ?layers = map Some [''sha256:aaa'', ''sha256:bbb'']"
    by (simp add: layer_digest_def index_map_def)
  have a5: "(\<exists>h t. index_map ?mt ''manifestDigest'' = JString h
                \<and> index_map ?mt ''userInput'' = JString t)
            \<or> (\<forall>d\<in>set [''sha256:aaa'', ''sha256:bbb'']. \<forall>m\<in>set (Matches curl_report). \<not> in_layer d m)"
    by (simp add: index_map_def)
  have none: "\<forall>m\<in>set (Matches curl_report). \<not> in_layer ''sha256:aaa'' m"
    by (simp add: curl_report_def sample_defs in_layer_def)
  from layer_entries_follow_layers[OF a1 a2 a3 a4 a5] obtain out where
    conv: "AnchoreStructConversion curl_report = Inr (out, None)"
    and len: "length out = length ?layers"
    and each: "\<forall>i<length ?layers.
                 LayerHash (out ! i) = [''sha256:aaa'', ''sha256:bbb''] ! i
               \<and> ParentLayerHash (out ! i)
                   = (if i = 0 then '''' else [''sha256:aaa'', ''sha256:bbb''] ! (i - 1))
               \<and> ((\<forall>m\<in>set (Matches curl_report). \<not> in_layer ([''sha256:aaa'', ''sha256:bbb''] ! i) m)
                    \<longrightarrow> Vulnerabilities (out ! i) = [])"
    by blast
  from each have e0: "LayerHash (out ! 0) = ''sha256:aaa'' \<and> ParentLayerHash (out ! 0) = ''''
      \<and> Vulnerabilities (out ! 0) = []"
    using none by (auto dest!: spec[where x = 0])
  from each have e1: "LayerHash (out ! 1) = ''sha256:bbb'' \<and> ParentLayerHash (out ! 1) = ''sha256:aaa''"
    by (auto dest!: spec[where x = 1])
  from conv len e0 e1 show ?thesis by auto
qed

text \<open>
  C2: for every well-shaped report, the list of each layer holds exactly one record for
  each match that has at least one location in that layer, in the order of the matches,
  whatever the number of such locations; a match without a location in the layer
  contributes nothing to it, so a match located in no layer of the image contributes
  nothing at all, and the conversion still returns with a nil error.
\<close>

theorem one_record_per_match_and_layer:
  assumes "Source r = Some src" and "Target src = JObject map_target"
    and "index_map map_target ''layers'' = JArray layers"
    and "map layer_digest layers = map Some digests"
    and "(index_map map_target ''manifestDigest'' = JString h
            \<and> index_map map_target ''userInput'' = JString t)
         \<or> (\<forall>d\<in>set digests. \<forall>m\<in>set (Matches r). \<not> in_layer d m)"
  shows "\<exists>out. AnchoreStructConversion r = Inr (out, None)
           \<and> length out = length digests
           \<and> (\<forall>i<length digests.
                 Vulnerabilities (out ! i)
                   = map (vuln_record h t) (filter (in_layer (digests ! i)) (Matches r)))"
proof -
  have "\<forall>i<length digests.
          Vulnerabilities (layer_chain (vuln_record h t) (Matches r) '''' digests ! i)
            = map (vuln_record h t) (filter (in_layer (digests ! i)) (Matches r))"
    by (simp add: layer_chain_nth)
  with conversion_eq[OF assms] show ?thesis
    by (simp add: length_layer_chain)
qed

theorem one_record_per_match_and_layer_witness:
  "\<exists>out. AnchoreStructConversion three_match_report = Inr (out, None)
     \<and> length out = 2
     \<and> Vulnerabilities (out ! 0)
         = [vuln_record ''sha256:fff'' ''registry.example.com/app:1'' openssl_match]
     \<and> Vulnerabilities (out ! 1)
         = [vuln_record ''sha256:fff'' ''registry.example.com/app:1'' curl_match,
            vuln_record ''sha256:fff'' ''registry.example.com/app:1'' openssl_match]"
proof -
  let ?layers = "map (\<lambda>d. JObject [(''digest'', JString d), (''size'', JNumber 1)])
                   [''sha256:aaa'', ''sha256:bbb'']"
  let ?mt = "[(''userInput'', JString ''registry.example.com/app:1''),
              (''manifestDigest'', JString ''sha256:fff''),
              (''layers'', JArray ?layers)]"
  have a1: "Source three_match_report = Some \<lparr> SourceType = ''image'', Target = JObject ?mt \<rparr>"
    by (simp add: three_match_report_def sample_report_def image_target_def)
  have a2: "Target \<lparr> SourceType = ''image'', Target = JObject ?mt \<rparr> = JObject ?mt"
    by simp
  have a3: "index_map ?mt ''layers'' = JArray ?layers"
    by (simp add: index_map_def)
  have a4: "map layer_digest ?layers = map Some [''sha256:aaa'', ''sha256:bbb'']"
    by (simp add: layer_digest_def index_map_def)
  have a5: "(index_map ?mt ''manifestDigest'' = JString ''sha256:fff''
              \<and> index_map ?mt ''userInput'' = JString ''registry.example.com/app:1'')
            \<or> (\<forall>d\<in>set [''sha256:aaa'', ''sha256:bbb''].
                  \<forall>m\<in>set (Matches three_match_report). \<not> in_layer d m)"
    by (simp add: index_map_def)
  have ms: "Matches three_match_report = [curl_match, openssl_match, orphan_match]"
    by (simp add: three_match_report_def sample_report_def)
  have f0: "filter (in_layer ''sha256:aaa'') [curl_match, openssl_match, orphan_match] = [openssl_match]"
    by (simp add: in_layer_def sample_defs)
  have f1: "filter (in_layer ''sha256:bbb'') [curl_match, openssl_match, orphan_match]
              = [curl_match, openssl_match]"
    by (simp add: in_layer_def sample_defs)
  from one_record_per_match_and_layer[OF a1 a2 a3 a4 a5] obtain out where
    conv: "AnchoreStructConversion three_match_report = Inr (out, None)"
    and len: "length out = length [''sha256:aaa'', ''sha256:bbb'']"
    and each: "\<forall>i<length [''sha256:aaa'', ''sha256:bbb''].
                 Vulnerabilities (out ! i)
                   = map (vuln_record ''sha256:fff'' ''registry.example.com/app:1'')
                       (filter (in_layer ([''sha256:aaa'', ''sha256:bbb''] ! i))
                          (Matches three_match_report))"
    by blast
  from each have "Vulnerabilities (out ! 0)
      = map (vuln_record ''sha256:fff'' ''registry.example.com/app:1'')
          (filter (in_layer ''sha256:aaa'') [curl_match, openssl_match, orphan_match])"
    unfolding ms by (auto dest!: spec[where x = 0] simp del: filter.simps)
  then have e0: "Vulnerabilities (out ! 0)
      = [vuln_record ''sha256:fff'' ''registry.example.com/app:1'' openssl_match]"
    by (simp only: f0 list.map)
  from each have "Vulnerabilities (out ! 1)
      = map (vuln_record ''sha256:fff'' ''registry.example.com/app:1'')
          (filter (in_layer ''sha256:bbb'') [curl_match, openssl_match, orphan_match])"
    unfolding ms by (auto dest!: spec[where x = 1] simp del: filter.simps)
  then have e1: "Vulnerabilities (out ! 1)
      = [vuln_record ''sha256:fff'' ''registry.example.com/app:1'' curl_match,
         vuln_record ''sha256:fff'' ''registry.example.com/app:1'' openssl_match]"
    by (simp only: f1 list.map)
  from conv len e0 e1 show ?thesis by auto
qed

text \<open>
  C7: the records of a returned layer correspond, one to one and in order, to the
  matches of the report located in that layer, and each record carries the data of its
  own match: its name and package are those of the match; its single fix entry has as
  \<open>FixVersion\<close> the first of the match's fix versions, or the empty string when there
  is none, and as \<open>FixName\<close> the match's fix state; its description is the description
  of the match's first related vulnerability, or the empty string when there is none.
  The top-level description of a match is never used: a report whose matches carry
  other top-level descriptions converts to the same result.
\<close>

theorem emitted_record_fields:
  "(AnchoreStructConversion r = Inr (out, e) \<and> L \<in> set out
      \<longrightarrow> list_all2
            (\<lambda>v m. VulnName v = ID (Vulnerability m)
                 \<and> RelatedPackageName v = Name (Artifact m)
                 \<and> PackageVersion v = Version (Artifact m)
                 \<and> Fixes v = [\<lparr> FixName = State (Fix (Vulnerability m)), FixImgTag = ImgTag v,
                                  FixVersion = (case Versions (Fix (Vulnerability m)) of
                                                  [] \<Rightarrow> '''' | x # xs \<Rightarrow> x) \<rparr>]
                 \<and> VulnDescription v = (case RelatedVulnerabilities m of
                                           [] \<Rightarrow> '''' | x # xs \<Rightarrow> Description x))
            (Vulnerabilities L) (filter (in_layer (LayerHash L)) (Matches r)))
   \<and> AnchoreStructConversion (with_own_descriptions g r) = AnchoreStructConversion r"
proof (intro conjI impI)
  assume a: "AnchoreStructConversion r = Inr (out, e) \<and> L \<in> set out"
  then obtain mt ls where "scan_layers mt (Matches r) ls '''' [] = Inr out"
    by (auto simp: AnchoreStructConversion_def split: option.splits sum.splits)
  from scan_layers_rel[OF this, of L] a
  have "list_all2 (\<lambda>v m. build_vuln mt m = Inr v) (Vulnerabilities L)
          (filter (in_layer (LayerHash L)) (Matches r))"
    by simp
  then show "list_all2
            (\<lambda>v m. VulnName v = ID (Vulnerability m)
                 \<and> RelatedPackageName v = Name (Artifact m)
                 \<and> PackageVersion v = Version (Artifact m)
                 \<and> Fixes v = [\<lparr> FixName = State (Fix (Vulnerability m)), FixImgTag = ImgTag v,
                                  FixVersion = (case Versions (Fix (Vulnerability m)) of
                                                  [] \<Rightarrow> '''' | x # xs \<Rightarrow> x) \<rparr>]
                 \<and> VulnDescription v = (case RelatedVulnerabilities m of
                                           [] \<Rightarrow> '''' | x # xs \<Rightarrow> Description x))
            (Vulnerabilities L) (filter (in_layer (LayerHash L)) (Matches r))"
    by (rule list_all2_mono) (rule build_vuln_record_fields)
next
  show "AnchoreStructConversion (with_own_descriptions g r) = AnchoreStructConversion r"
    by (rule conversion_own_description)
qed

theorem emitted_record_fields_witness:
  "VulnName (vuln_record ''sha256:fff'' ''registry.example.com/app:1'' openssl_match) = ''CVE-2021-3711''
   \<and> Fixes (vuln_record ''sha256:fff'' ''registry.example.com/app:1'' curl_match)
       = [\<lparr> FixName = ''fixed'', FixImgTag = ''registry.example.com/app:1'',
            FixVersion = ''7.68.0-1'' \<rparr>]
   \<and> Fixes (vuln_record ''sha256:fff'' ''registry.example.com/app:1'' openssl_match)
       = [\<lparr> FixName = ''not-fixed'', FixImgTag = ''registry.example.com/app:1'',
            FixVersion = '''' \<rparr>]
   \<and> VulnDescription (vuln_record ''sha256:fff'' ''registry.example.com/app:1'' openssl_match)
       = ''related text of CVE-2021-3711''"
proof -
  let ?vc = "vuln_record ''sha256:fff'' ''registry.example.com/app:1'' curl_match"
  let ?vo = "vuln_record ''sha256:fff'' ''registry.example.com/app:1'' openssl_match"
  let ?L = "\<lparr> LayerHash = ''sha256:bbb'', ParentLayerHash = ''sha256:aaa'',
               Vulnerabilities = [?vc, ?vo] \<rparr>"
  let ?out = "[\<lparr> LayerHash = ''sha256:aaa'', ParentLayerHash = '''', Vulnerabilities = [?vo] \<rparr>, ?L]"
  have conv: "AnchoreStructConversion three_match_report = Inr (?out, None)"
    by (simp add: AnchoreStructConversion_def three_match_report_def sample_defs assert_map_def
          assert_list_def assert_string_def index_map_def build_vuln_def)
  have f: "filter (in_layer (LayerHash ?L)) (Matches three_match_report) = [curl_match, openssl_match]"
    by (simp add: in_layer_def three_match_report_def sample_defs)
  have "AnchoreStructConversion three_match_report = Inr (?out, None) \<and> ?L \<in> set ?out"
    using conv by simp
  with emitted_record_fields[of three_match_report ?out None ?L]
  have "list_all2
            (\<lambda>v m. VulnName v = ID (Vulnerability m)
                 \<and> RelatedPackageName v = Name (Artifact m)
                 \<and> PackageVersion v = Version (Artifact m)
                 \<and> Fixes v = [\<lparr> FixName = State (Fix (Vulnerability m)), FixImgTag = ImgTag v,
                                  FixVersion = (case Versions (Fix (Vulnerability m)) of
                                                  [] \<Rightarrow> '''' | x # xs \<Rightarrow> x) \<rparr>]
                 \<and> VulnDescription v = (case RelatedVulnerabilities m of
                                           [] \<Rightarrow> '''' | x # xs \<Rightarrow> Description x))
            (Vulnerabilities ?L) (filter (in_layer (LayerHash ?L)) (Matches three_match_report))"
    by blast
  then have
    c: "Fixes ?vc = [\<lparr> FixName = State (Fix (Vulnerability curl_match)), FixImgTag = ImgTag ?vc,
                       FixVersion = (case Versions (Fix (Vulnerability curl_match)) of
                                       [] \<Rightarrow> '''' | x # xs \<Rightarrow> x) \<rparr>]"
    and o: "VulnName ?vo = ID (Vulnerability openssl_match)
          \<and> Fixes ?vo = [\<lparr> FixName = State (Fix (Vulnerability openssl_match)), FixImgTag = ImgTag ?vo,
                           FixVersion = (case Versions (Fix (Vulnerability openssl_match)) of
                                           [] \<Rightarrow> '''' | x # xs \<Rightarrow> x) \<rparr>]
          \<and> VulnDescription ?vo = (case RelatedVulnerabilities openssl_match of
                                     [] \<Rightarrow> '''' | x # xs \<Rightarrow> Description x)"
    unfolding f by simp_all
  have tags: "ImgTag ?vc = ''registry.example.com/app:1''" "ImgTag ?vo = ''registry.example.com/app:1''"
    by (simp_all add: vuln_record_def)
  have vals:
    "State (Fix (Vulnerability curl_match)) = ''fixed''"
    "Versions (Fix (Vulnerability curl_match)) = [''7.68.0-1'']"
    "ID (Vulnerability openssl_match) = ''CVE-2021-3711''"
    "State (Fix (Vulnerability openssl_match)) = ''not-fixed''"
    "Versions (Fix (Vulnerability openssl_match)) = []"
    "RelatedVulnerabilities openssl_match
       = [\<lparr> ID = ''CVE-2021-3711'', DataSource = ''https://nvd.nist.gov/vuln/detail/CVE-2021-3711'',
            Namespace = ''nvd'', Severity = ''High'', URLs = [],
            Description = ''related text of CVE-2021-3711'' \<rparr>]"
    by (simp_all add: sample_defs)
  from c o show ?thesis
    by (simp only: tags vals list.case VulnerabilityMetadata.simps simp_thms)
qed

text \<open>
  C10: for every report whose \<open>Source\<close> is absent, the conversion returns the empty
  layer list together with a nil error; it does not panic.
\<close>

theorem conversion_without_source:
  "Source r = None \<Longrightarrow> AnchoreStructConversion r = Inr ([], None)"
  by (simp add: AnchoreStructConversion_def)

theorem conversion_without_source_witness:
  "Source sourceless_report = None \<and> AnchoreStructConversion sourceless_report = Inr ([], None)"
proof -
  have h: "Source sourceless_report = None"
    by (simp add: sourceless_report_def)
  from conversion_without_source[OF h] h show ?thesis by simp
qed

text \<open>
  C3, as the code behaves: the report of a directory scan has a path as target, not an
  object, and the conversion panics on it at line 500 instead of returning an error.
  The error that \<open>GetAnchoreScanRes\<close> returns is the one of the scanner process for
  some file system, so an error of \<^verbatim>\<open>json.Unmarshal\<close> is never returned.
\<close>

theorem malformed_target_panics:
  "AnchoreStructConversion directory_report = Inl InterfaceConversion
   \<and> (\<exists>fs'. snd (fst (GetAnchoreScanRes env anchoreDirectoryPath fs scanCmd))
              = snd (cmd_Run env [anchoreDirectoryPath @ anchoreBinaryName, ImageTag scanCmd,
                                  ''-o'', ''json''] fs'))"
proof
  show "AnchoreStructConversion directory_report = Inl InterfaceConversion"
    by (simp add: AnchoreStructConversion_def directory_report_def sample_report_def assert_map_def)
next
  let ?u = "case Credentials scanCmd of None \<Rightarrow> '''' | Some c \<Rightarrow> CredUsername c"
  let ?p = "case Credentials scanCmd of None \<Rightarrow> '''' | Some c \<Rightarrow> CredPassword c"
  let ?fs1 = "if has_credentials scanCmd
              then snd (AddCredentialsToAnchoreConfiguratioFile env anchoreDirectoryPath fs ?u ?p)
              else fs"
  have "snd (fst (GetAnchoreScanRes env anchoreDirectoryPath fs scanCmd))
          = snd (cmd_Run env [anchoreDirectoryPath @ anchoreBinaryName, ImageTag scanCmd,
                              ''-o'', ''json''] ?fs1)"
    by (simp add: GetAnchoreScanRes_def Let_def split: prod.splits option.splits)
  then show "\<exists>fs'. snd (fst (GetAnchoreScanRes env anchoreDirectoryPath fs scanCmd))
              = snd (cmd_Run env [anchoreDirectoryPath @ anchoreBinaryName, ImageTag scanCmd,
                                  ''-o'', ''json''] fs')"
    by blast
qed

section \<open>Properties of the package resolution\<close>

lemma pass_inv_resolve_name:
  assumes "pass_inv T pm st seen" and "resolve_name T pm st k = Inr st'"
  shows "pass_inv T pm st' (seen @ [k])"
proof (cases "featureToFileList st k")
  case (Some files)
  with assms(2) have same: "queries st' = queries st" "featureToFileList st' = featureToFileList st"
    by (auto simp: resolve_name_def)
  show ?thesis
    unfolding pass_inv_def
  proof (intro allI impI)
    fix n fl rs assume r: "read_with_remap T pm n = Inr (fl, rs)"
    from assms(1) r have i:
      "if fl = []
       then count_list (queries st) n = count_list seen n \<and> featureToFileList st n = None
       else (n \<notin> set seen \<and> count_list (queries st) n = 0 \<and> featureToFileList st n = None)
          \<or> (n \<in> set seen \<and> count_list (queries st) n = 1
              \<and> featureToFileList st n = Some (convertToPkgFiles fl))"
      unfolding pass_inv_def by blast
    show "if fl = []
       then count_list (queries st') n = count_list (seen @ [k]) n \<and> featureToFileList st' n = None
       else (n \<notin> set (seen @ [k]) \<and> count_list (queries st') n = 0 \<and> featureToFileList st' n = None)
          \<or> (n \<in> set (seen @ [k]) \<and> count_list (queries st') n = 1
              \<and> featureToFileList st' n = Some (convertToPkgFiles fl))"
    proof (cases "n = k")
      case True
      with i Some show ?thesis unfolding same by (auto split: if_splits)
    next
      case False
      with i show ?thesis unfolding same by (auto split: if_splits)
    qed
  qed
next
  case None
  with assms(2) obtain flk rsk where rk: "read_with_remap T pm k = Inr (flk, rsk)"
    by (auto simp: resolve_name_def split: sum.splits)
  from None rk assms(2) have q: "queries st' = queries st @ [k]"
    by (auto simp: resolve_name_def Let_def split: if_splits)
  from None rk assms(2) have c:
    "featureToFileList st' =
       (if flk = [] then featureToFileList st
        else (featureToFileList st)(k \<mapsto> convertToPkgFiles flk))"
    by (auto simp: resolve_name_def Let_def split: if_splits)
  show ?thesis
    unfolding pass_inv_def
  proof (intro allI impI)
    fix n fl rs assume r: "read_with_remap T pm n = Inr (fl, rs)"
    from assms(1) r have i:
      "if fl = []
       then count_list (queries st) n = count_list seen n \<and> featureToFileList st n = None
       else (n \<notin> set seen \<and> count_list (queries st) n = 0 \<and> featureToFileList st n = None)
          \<or> (n \<in> set seen \<and> count_list (queries st) n = 1
              \<and> featureToFileList st n = Some (convertToPkgFiles fl))"
      unfolding pass_inv_def by blast
    show "if fl = []
       then count_list (queries st') n = count_list (seen @ [k]) n \<and> featureToFileList st' n = None
       else (n \<notin> set (seen @ [k]) \<and> count_list (queries st') n = 0 \<and> featureToFileList st' n = None)
          \<or> (n \<in> set (seen @ [k]) \<and> count_list (queries st') n = 1
              \<and> featureToFileList st' n = Some (convertToPkgFiles fl))"
    proof (cases "n = k")
      case True
      with r rk have "fl = flk" by simp
      with True i None show ?thesis unfolding q c by (auto split: if_splits)
    next
      case False
      with i show ?thesis unfolding q c by (auto split: if_splits)
    qed
  qed
qed

lemma resolve_detail_name:
  "resolve_detail T pm st d = Inr st' \<Longrightarrow>
   (case detail_name d of None \<Rightarrow> st' = st | Some k \<Rightarrow> resolve_name T pm st k = Inr st')"
  by (auto simp: resolve_detail_def detail_name_def assert_map_def assert_string_def
        split: if_splits json.splits)

lemma pass_inv_resolve_details:
  "pass_inv T pm st seen \<Longrightarrow> resolve_details T pm st ds = Inr st' \<Longrightarrow>
   pass_inv T pm st' (seen @ List.map_filter detail_name ds)"
proof (induction ds arbitrary: st seen)
  case Nil
  then show ?case by (simp add: map_filter_simps)
next
  case (Cons d ds)
  from Cons.prems(2) obtain st1 where
    d: "resolve_detail T pm st d = Inr st1" and rest: "resolve_details T pm st1 ds = Inr st'"
    by (auto split: sum.splits)
  show ?case
  proof (cases "detail_name d")
    case None
    with resolve_detail_name[OF d] have "st1 = st" by simp
    with Cons.IH[OF Cons.prems(1)] rest None show ?thesis
      by (simp add: map_filter_simps)
  next
    case (Some k)
    with resolve_detail_name[OF d] have "resolve_name T pm st k = Inr st1" by simp
    from pass_inv_resolve_name[OF Cons.prems(1) this]
    have "pass_inv T pm st1 (seen @ [k])" .
    from Cons.IH[OF this rest] Some show ?thesis
      by (simp add: map_filter_simps)
  qed
qed

lemma pass_inv_resolve_matches:
  "pass_inv T pm st seen \<Longrightarrow> resolve_matches T pm st ms = Inr st' \<Longrightarrow>
   pass_inv T pm st'
     (seen @ concat (map (\<lambda>m. List.map_filter detail_name (MatchDetails m)) ms))"
proof (induction ms arbitrary: st seen)
  case Nil
  then show ?case by simp
next
  case (Cons m ms)
  from Cons.prems(2) obtain st1 where
    d: "resolve_details T pm st (MatchDetails m) = Inr st1"
    and rest: "resolve_matches T pm st1 ms = Inr st'"
    by (auto split: sum.splits)
  from Cons.IH[OF pass_inv_resolve_details[OF Cons.prems(1) d] rest]
  show ?case by simp
qed

lemma pass_inv_initial: "pass_inv T pm initial_state []"
  by (simp add: pass_inv_def initial_state_def)

lemma read_with_remap_nil_table:
  "read_with_remap Map.empty pm n = Inr (fl, rs) \<Longrightarrow> rs = []"
  by (auto simp: read_with_remap_def split: prod.splits option.splits)

lemma resolve_name_no_retry:
  assumes "resolve_name Map.empty pm st k = Inr st'"
  shows "retries st' = retries st"
proof (cases "featureToFileList st k")
  case (Some files)
  with assms show ?thesis by (auto simp: resolve_name_def)
next
  case None
  with assms obtain fl rs where r: "read_with_remap Map.empty pm k = Inr (fl, rs)"
    by (auto simp: resolve_name_def split: sum.splits)
  then have "rs = []" by (rule read_with_remap_nil_table)
  with None r assms show ?thesis
    by (auto simp: resolve_name_def Let_def split: if_splits)
qed

lemma resolve_detail_no_retry:
  "resolve_detail Map.empty pm st d = Inr st' \<Longrightarrow> retries st' = retries st"
  using resolve_detail_name[of Map.empty pm st d st']
  by (auto split: option.splits dest: resolve_name_no_retry)

lemma resolve_details_no_retry:
  "resolve_details Map.empty pm st ds = Inr st' \<Longrightarrow> retries st' = retries st"
  by (induction ds arbitrary: st) (auto split: sum.splits dest: resolve_detail_no_retry)

lemma resolve_matches_no_retry:
  "resolve_matches Map.empty pm st ms = Inr st' \<Longrightarrow> retries st' = retries st"
  by (induction ms arbitrary: st) (auto split: sum.splits dest: resolve_details_no_retry)

lemmas resolver_defs =
  resolve_detail_def resolve_name_def read_with_remap_def initial_state_def
  assert_map_def assert_string_def index_map_def convertToPkgFiles_def listing_handler_def

text \<open>
  C6, as the code behaves: the remap table is a local variable that is never assigned,
  so no pass of \<open>GetPackagesInLayer\<close> ever retries a query under a real name. For a
  \<open>dpkg\<close> handler whose query for \<open>libfoo1\<close> fails while the queries for
  \<open>libfoo1-bin\<close> and \<open>libfoo1-data\<close> would succeed, the result is the record of
  \<open>libfoo1\<close> without files.
\<close>

theorem remap_is_never_consulted:
  "(case resolution_pass r pm of Inl p \<Rightarrow> True | Inr st \<Rightarrow> retries st = [])
   \<and> readFileListForPackage (listing_handler ''dpkg'' libfoo_parts) ''libfoo1''
       = (None, Some (Error ''no file list''))
   \<and> GetType (listing_handler ''dpkg'' libfoo_parts) = ''dpkg''
   \<and> readFileListForPackage (listing_handler ''dpkg'' libfoo_parts) ''libfoo1-bin''
       = (Some [''/usr/bin/foo''], None)
   \<and> readFileListForPackage (listing_handler ''dpkg'' libfoo_parts) ''libfoo1-data''
       = (Some [''/usr/share/foo/data''], None)
   \<and> GetPackagesInLayer ''sha256:aaa'' libfoo_report (Some (listing_handler ''dpkg'' libfoo_parts))
       = Inr [\<lparr> PackageName = ''libfoo1'', Files = [] \<rparr>]"
proof (intro conjI)
  show "case resolution_pass r pm of Inl p \<Rightarrow> True | Inr st \<Rightarrow> retries st = []"
    using resolve_matches_no_retry[of pm initial_state "Matches r"]
    by (auto simp: resolution_pass_def initial_state_def split: sum.splits)
qed (simp_all add: GetPackagesInLayer_def resolution_pass_def libfoo_report_def libfoo_match_def
       sample_defs resolver_defs libfoo_parts_def)

text \<open>
  C8, as the code behaves: within one pass of \<open>GetPackagesInLayer\<close> that runs to its
  end, a package name whose query yields a non-empty file list is queried once if it
  occurs in the match details and never otherwise; once queried it is cached with the
  files computed at that query, and an occurrence of a cached name issues no query and
  receives the cached files. A name whose query yields no files is never cached, and
  is queried as many times as it occurs.
\<close>

theorem resolved_name_is_queried_once:
  assumes "resolution_pass r pm = Inr st"
    and "read_with_remap Map.empty pm n = Inr (fl, rs)"
  shows "(fl \<noteq> [] \<longrightarrow>
            count_list (queries st) n \<le> 1
          \<and> count_list (queries st) n = (if n \<in> set (package_names r) then 1 else 0)
          \<and> (count_list (queries st) n = 1 \<longrightarrow> featureToFileList st n = Some (convertToPkgFiles fl)))
       \<and> (fl = [] \<longrightarrow>
            count_list (queries st) n = count_list (package_names r) n
          \<and> featureToFileList st n = None)
       \<and> (\<forall>st0 files st1.
             featureToFileList st0 n = Some files \<and> resolve_name Map.empty pm st0 n = Inr st1
               \<longrightarrow> queries st1 = queries st0 \<and> retries st1 = retries st0
                   \<and> Files (linuxPackage st1) = files
                   \<and> featureToFileList st1 = featureToFileList st0)"
proof -
  have "pass_inv Map.empty pm st ([] @ package_names r)"
    using assms(1) pass_inv_resolve_matches[OF pass_inv_initial]
    unfolding resolution_pass_def package_names_def by blast
  then have "pass_inv Map.empty pm st (package_names r)" by simp
  with assms(2) have
    "if fl = []
     then count_list (queries st) n = count_list (package_names r) n \<and> featureToFileList st n = None
     else (n \<notin> set (package_names r) \<and> count_list (queries st) n = 0 \<and> featureToFileList st n = None)
        \<or> (n \<in> set (package_names r) \<and> count_list (queries st) n = 1
            \<and> featureToFileList st n = Some (convertToPkgFiles fl))"
    unfolding pass_inv_def by blast
  moreover have "\<forall>st0 files st1.
             featureToFileList st0 n = Some files \<and> resolve_name Map.empty pm st0 n = Inr st1
               \<longrightarrow> queries st1 = queries st0 \<and> retries st1 = retries st0
                   \<and> Files (linuxPackage st1) = files
                   \<and> featureToFileList st1 = featureToFileList st0"
    by (auto simp: resolve_name_def)
  ultimately show ?thesis by (auto split: if_splits)
qed

lemma bash_twice_value:
  "resolution_pass bash_twice_report (listing_handler ''dpkg'' package_db) =
     Inr \<lparr> featureToFileList = [''bash'' \<mapsto> [\<lparr> Filename = ''/bin/bash'' \<rparr>]],
           linuxPackage = \<lparr> PackageName = ''bash'', Files = [\<lparr> Filename = ''/bin/bash'' \<rparr>] \<rparr>,
           queries = [''bash''], retries = [] \<rparr>"
  by (simp add: resolution_pass_def bash_twice_report_def bash_match_def sample_defs resolver_defs
        package_db_def)

theorem resolved_name_is_queried_once_witness:
  "\<exists>st. resolution_pass bash_twice_report (listing_handler ''dpkg'' package_db) = Inr st
     \<and> read_with_remap Map.empty (listing_handler ''dpkg'' package_db) ''bash''
         = Inr ([''/bin/bash''], [])
     \<and> package_names bash_twice_report = [''bash'', ''bash'']
     \<and> count_list (queries st) ''bash'' = 1
     \<and> featureToFileList st ''bash'' = Some (convertToPkgFiles [''/bin/bash''])"
proof -
  let ?pm = "listing_handler ''dpkg'' package_db"
  let ?st = "\<lparr> featureToFileList = [''bash'' \<mapsto> [\<lparr> Filename = ''/bin/bash'' \<rparr>]],
               linuxPackage = \<lparr> PackageName = ''bash'', Files = [\<lparr> Filename = ''/bin/bash'' \<rparr>] \<rparr>,
               queries = [''bash''], retries = [] \<rparr>"
  have a2: "read_with_remap Map.empty ?pm ''bash'' = Inr ([''/bin/bash''], [])"
    by (simp add: read_with_remap_def listing_handler_def package_db_def)
  have names: "package_names bash_twice_report = [''bash'', ''bash'']"
    by (simp add: package_names_def detail_name_def bash_twice_report_def bash_match_def
          sample_defs index_map_def map_filter_simps)
  note t = resolved_name_is_queried_once[OF bash_twice_value a2]
  from t names have c: "count_list (queries ?st) ''bash'' = 1"
    by simp
  with t have "featureToFileList ?st ''bash'' = Some (convertToPkgFiles [''/bin/bash''])"
    by blast
  with bash_twice_value a2 names c show ?thesis by blast
qed

text \<open>
  The stated form of the eighth claim covers every package name. Here \<open>libfoo1\<close> occurs
  in two match details and has no file list: it is queried at each occurrence.
\<close>

theorem unresolved_name_is_queried_again:
  "observe (resolution_pass libfoo_twice_report (listing_handler ''dpkg'' libfoo_parts))
     = Inr ([''libfoo1'', ''libfoo1''], [], \<lparr> PackageName = ''libfoo1'', Files = [] \<rparr>)"
  by (simp add: observe_def resolution_pass_def libfoo_twice_report_def libfoo_match_def
        sample_defs resolver_defs libfoo_parts_def)

text \<open>
  C9, as the code behaves: for a report with a match on \<open>bash\<close> and a match on \<open>curl\<close>,
  both resolved with their own files, the result holds a single entry, the one of the
  last package; the entry of \<open>bash\<close> is lost.
\<close>

theorem only_last_package_is_returned:
  "GetPackagesInLayer ''sha256:aaa'' two_package_report (Some (listing_handler ''dpkg'' package_db))
     = Inr [\<lparr> PackageName = ''curl'', Files = [\<lparr> Filename = ''/usr/bin/curl'' \<rparr>] \<rparr>]"
  by (simp add: GetPackagesInLayer_def resolution_pass_def two_package_report_def bash_match_def
        sample_defs resolver_defs package_db_def)

section \<open>Properties of the credential routines\<close>

declare remove_loop.simps [simp del]

lemma remove_loop_eq:
  "i \<le> length auth \<Longrightarrow>
   remove_loop i username password auth =
     take i auth @ takeWhile (\<lambda>a. \<not> is_pair username password a) (drop i auth)
       @ drop 1 (dropWhile (\<lambda>a. \<not> is_pair username password a) (drop i auth))"
proof (induction i username password auth rule: remove_loop.induct)
  case (1 i username password auth)
  show ?case
  proof (cases "i < length auth")
    case False
    with "1.prems" show ?thesis
      by (subst remove_loop.simps) simp
  next
    case True
    then have d: "drop i auth = auth ! i # drop (Suc i) auth"
      by (simp add: Cons_nth_drop_Suc)
    show ?thesis
    proof (cases "is_pair username password (auth ! i)")
      case True
      with \<open>i < length auth\<close> d show ?thesis
        by (subst remove_loop.simps) (simp add: is_pair_def)
    next
      case False
      with \<open>i < length auth\<close> have
        "remove_loop i username password auth = remove_loop (i + 1) username password auth"
        by (subst remove_loop.simps) (auto simp: is_pair_def)
      also have "\<dots> = take (i + 1) auth
           @ takeWhile (\<lambda>a. \<not> is_pair username password a) (drop (i + 1) auth)
           @ drop 1 (dropWhile (\<lambda>a. \<not> is_pair username password a) (drop (i + 1) auth))"
        using "1.IH" \<open>i < length auth\<close> False by (simp add: is_pair_def)
      also have "\<dots> = take i auth
           @ takeWhile (\<lambda>a. \<not> is_pair username password a) (drop i auth)
           @ drop 1 (dropWhile (\<lambda>a. \<not> is_pair username password a) (drop i auth))"
        using False \<open>i < length auth\<close> d by (simp add: take_Suc_conv_app_nth)
      finally show ?thesis .
    qed
  qed
qed

lemma length_filter_drop_dropWhile:
  "length (filter P (takeWhile (\<lambda>a. \<not> P a) xs @ drop 1 (dropWhile (\<lambda>a. \<not> P a) xs)))
     = length (filter P xs) - 1"
  by (induction xs) auto


lemma remove_loop_first_match:
  "remove_loop 0 username password auth
     = takeWhile (\<lambda>a. \<not> is_pair username password a) auth
         @ drop 1 (dropWhile (\<lambda>a. \<not> is_pair username password a) auth)"
  using remove_loop_eq[of 0 auth username password] by simp

lemma remove_loop_count:
  "length (filter (is_pair username password) (remove_loop 0 username password auth))
     = length (filter (is_pair username password) auth) - 1"
  unfolding remove_loop_first_match by (rule length_filter_drop_dropWhile)

text \<open>When the command carries no credentials, or an empty one, the file system is untouched.\<close>

lemma no_credentials_no_mutation:
  "\<not> has_credentials scanCmd \<Longrightarrow> snd (GetAnchoreScanRes env anchoreDirectoryPath fs scanCmd) = fs"
  by (simp add: GetAnchoreScanRes_def Let_def split: prod.splits option.splits)

lemmas credential_defs =
  GetAnchoreScanRes_def AddCredentialsToAnchoreConfiguratioFile_def
  RemoveCredentialsFromAnchoreConfiguratioFile_def has_credentials_def failing_scan_env_def
  known_documents_def startup_text_def alice_text_def artifact_fs_def alice_scan_def
  config_path_def artifact_credentials_def





text \<open>
  C5, as the code behaves: the routine decodes the text of a path, not the contents of
  the artifact, so what it writes does not depend on what the artifact holds. With a
  decoder that rejects that text it returns the error before writing: the artifact
  written at start-up is left as it was, without the entry.
\<close>

theorem add_ignores_the_artifact:
  "(\<exists>data. \<forall>fs. snd (AddCredentialsToAnchoreConfiguratioFile env anchoreDirectoryPath fs username password) = fs
              \<or> snd (AddCredentialsToAnchoreConfiguratioFile env anchoreDirectoryPath fs username password)
                  = fs \<lparr> files := (files fs)(config_path anchoreDirectoryPath \<mapsto> data) \<rparr>)
   \<and> AddCredentialsToAnchoreConfiguratioFile failing_scan_env ''/srv/anchore-resources''
         (artifact_fs startup_text) ''alice'' ''s3cret''
       = (Some (Error ''yaml: unmarshal errors''), artifact_fs startup_text)
   \<and> artifact_credentials failing_scan_env ''/srv/anchore-resources''
         (snd (GetAnchoreScanRes failing_scan_env ''/srv/anchore-resources''
                 (artifact_fs startup_text) alice_scan)) = []"
proof (intro conjI)
  show "\<exists>data. \<forall>fs. snd (AddCredentialsToAnchoreConfiguratioFile env anchoreDirectoryPath fs username password) = fs
              \<or> snd (AddCredentialsToAnchoreConfiguratioFile env anchoreDirectoryPath fs username password)
                  = fs \<lparr> files := (files fs)(config_path anchoreDirectoryPath \<mapsto> data) \<rparr>"
  proof (cases "yaml_Unmarshal env (anchoreDirectoryPath @ ''/config.yaml'')")
    case (Inl err)
    then show ?thesis
      by (simp add: AddCredentialsToAnchoreConfiguratioFile_def)
  next
    case (Inr App)
    then show ?thesis
      by (auto simp: AddCredentialsToAnchoreConfiguratioFile_def WriteFile_def config_path_def Let_def
            intro!: exI[where x = "fst (yaml_Marshal env (App \<lparr> Registry := (Registry App)
                       \<lparr> Auth := Auth (Registry App) @
                            [\<lparr> Authority = '''', Username = username,
                                Password = password, Token = '''' \<rparr>] \<rparr> \<rparr>))"])
  qed
next
  show "AddCredentialsToAnchoreConfiguratioFile failing_scan_env ''/srv/anchore-resources''
         (artifact_fs startup_text) ''alice'' ''s3cret''
       = (Some (Error ''yaml: unmarshal errors''), artifact_fs startup_text)"
    by (simp add: credential_defs)
next
  show "artifact_credentials failing_scan_env ''/srv/anchore-resources''
         (snd (GetAnchoreScanRes failing_scan_env ''/srv/anchore-resources''
                 (artifact_fs startup_text) alice_scan)) = []"
    by (simp add: credential_defs startup_config_def)
qed

end
